theory Spec2Isabelle
  imports Complex_Main
begin

section \<open>JavaScript numbers\<close>

text \<open>
  The aggregation code computes with JavaScript numbers. Counts and rounded percentages
  are integers; quotients are modelled as exact rationals. The three non-finite values a
  division or an empty \<^verbatim>\<open>Math.max\<close>/\<^verbatim>\<open>Math.min\<close> produces are kept as values of
  their own, so that a summary field holding \<^verbatim>\<open>NaN\<close> or an infinity is visible in the model.
\<close>

datatype jsnum = Fin rat | NaN | PosInf | NegInf

text \<open>\<^verbatim>\<open>Math.round(x)\<close> on a finite number: the nearest integer, halves rounded up.\<close>

definition js_round :: "rat \<Rightarrow> int" where
  "js_round x = \<lfloor>x + 1 / 2\<rfloor>"

text \<open>\<^verbatim>\<open>a / b\<close> on finite numbers: \<^verbatim>\<open>0 / 0\<close> is \<^verbatim>\<open>NaN\<close>, another division by zero is infinite.\<close>

definition js_div :: "rat \<Rightarrow> rat \<Rightarrow> jsnum" where
  "js_div a b =
     (if b = 0 then (if a = 0 then NaN else if 0 < a then PosInf else NegInf)
      else Fin (a / b))"

text \<open>\<^verbatim>\<open>x * 100\<close>: a finite factor keeps \<^verbatim>\<open>NaN\<close> and the infinities as they are.\<close>

fun js_times100 :: "jsnum \<Rightarrow> jsnum" where
  "js_times100 (Fin x) = Fin (x * 100)"
| "js_times100 NaN = NaN"
| "js_times100 PosInf = PosInf"
| "js_times100 NegInf = NegInf"

text \<open>\<^verbatim>\<open>Math.round\<close> on any number: \<^verbatim>\<open>NaN\<close> and the infinities are returned unchanged.\<close>

fun Math_round :: "jsnum \<Rightarrow> jsnum" where
  "Math_round (Fin x) = Fin (of_int (js_round x))"
| "Math_round NaN = NaN"
| "Math_round PosInf = PosInf"
| "Math_round NegInf = NegInf"

text \<open>\<^verbatim>\<open>Math.max(...xs)\<close> and \<^verbatim>\<open>Math.min(...xs)\<close> over integers: with no argument they
  are \<^verbatim>\<open>-Infinity\<close> and \<^verbatim>\<open>Infinity\<close>.\<close>

definition Math_max :: "int list \<Rightarrow> jsnum" where
  "Math_max xs = (case xs of [] \<Rightarrow> NegInf | y # ys \<Rightarrow> Fin (of_int (fold max ys y)))"

definition Math_min :: "int list \<Rightarrow> jsnum" where
  "Math_min xs = (case xs of [] \<Rightarrow> PosInf | y # ys \<Rightarrow> Fin (of_int (fold min ys y)))"

definition is_finite :: "jsnum \<Rightarrow> bool" where
  "is_finite x = (case x of Fin _ \<Rightarrow> True | _ \<Rightarrow> False)"

section \<open>Statements\<close>

text \<open>
  An xAPI statement as the processors read it. \<^verbatim>\<open>object.definition\<close>, \<^verbatim>\<open>result\<close>,
  \<^verbatim>\<open>result.score\<close>, \<^verbatim>\<open>result.success\<close> and \<^verbatim>\<open>result.duration\<close> are optional (the code
  reaches them through \<^verbatim>\<open>?.\<close> or tests them); a definition carries its language map of
  names, a score carries its \<^verbatim>\<open>scaled\<close> value. \<^verbatim>\<open>timestamp\<close> is a valid instant, held as
  the milliseconds since the epoch that \<^verbatim>\<open>new Date(stmt.timestamp)\<close> yields.
\<close>

record definition_t =
  def_name :: "(string \<times> string) list"
  def_type :: "string option"

record score_t =
  scaled :: rat
  raw :: "rat option"
  max_score :: "rat option"

record result_t =
  res_score :: "score_t option"
  res_success :: "bool option"
  res_duration :: "string option"

record statement =
  actor_name :: "string option"
  verb_id :: string
  object_id :: string
  object_definition :: "definition_t option"
  stmt_result :: "result_t option"
  timestamp :: int

definition verb_completed :: string where
  "verb_completed = ''http://adlnet.gov/expapi/verbs/completed''"



text \<open>\<^verbatim>\<open>name['en-US'] || fallback\<close>: a missing or empty name gives the fallback.\<close>

definition name_or :: "(string \<times> string) list \<Rightarrow> string \<Rightarrow> string" where
  "name_or names fallback =
     (case map_of names ''en-US'' of
        None \<Rightarrow> fallback
      | Some n \<Rightarrow> if n = [] then fallback else n)"

text \<open>\<^verbatim>\<open>stmt.result?.score\<close>\<close>

definition result_score :: "statement \<Rightarrow> score_t option" where
  "result_score stmt =
     (case stmt_result stmt of None \<Rightarrow> None | Some r \<Rightarrow> res_score r)"

section \<open>Progress calculator\<close>

text \<open>\<^verbatim>\<open>Set.prototype.add\<close>: a set in insertion order, an element already there is kept once.\<close>

definition set_add :: "'a \<Rightarrow> 'a list \<Rightarrow> 'a list" where
  "set_add x xs = (if x \<in> set xs then xs else xs @ [x])"








text \<open>A completion event: a statement whose verb is the completion verb.\<close>

definition is_completion :: "statement \<Rightarrow> bool" where
  "is_completion s = (verb_id s = verb_completed)"

text \<open>A statement with verb \<open>v\<close> on activity \<open>a\<close> at time \<open>t\<close>, without definition and
  without result.\<close>

definition stmt0 :: "string \<Rightarrow> string \<Rightarrow> int \<Rightarrow> statement" where
  "stmt0 v a t = \<lparr>actor_name = None, verb_id = v, object_id = a, object_definition = None,
                  stmt_result = None, timestamp = t\<rparr>"



section \<open>Duration codec\<close>

text \<open>
  \<^verbatim>\<open>duration.match(/PT(?:(\d+)H)?(?:(\d+)M)?(?:(\d+)S)?/)\<close>. The pattern is not anchored:
  the match starts at the first occurrence of \<^verbatim>\<open>PT\<close>, and since every group is optional
  it succeeds there. Each group is tried in turn on what follows: a longest run of one or
  more ASCII digits and then the designator; a group that does not match there is skipped
  and leaves the position where it was.
\<close>

definition is_digit :: "char \<Rightarrow> bool" where
  "is_digit c = (c \<in> set ''0123456789'')"







section \<open>Engagement analyzer: study sessions\<close>

text \<open>
  A session object; \<^verbatim>\<open>duration\<close> is the property the code adds when it closes the
  session, in seconds.
\<close>

record session =
  sess_start :: int
  sess_end :: int
  activities :: nat
  duration :: "rat option"

definition new_session :: "int \<Rightarrow> session" where
  "new_session t = \<lparr>sess_start = t, sess_end = t, activities = 1, duration = None\<rparr>"

definition close_session :: "session \<Rightarrow> session" where
  "close_session s = s\<lparr>duration := Some (of_int (sess_end s - sess_start s) / 1000)\<rparr>"

text \<open>The \<^verbatim>\<open>for\<close> loop of \<^verbatim>\<open>calculateStudySessions\<close> over the remaining timestamps, and
  the statements after it that close and push the last session.\<close>

fun sessions_loop :: "session list \<Rightarrow> session \<Rightarrow> int list \<Rightarrow> session list" where
  "sessions_loop sessions currentSession [] = sessions @ [close_session currentSession]"
| "sessions_loop sessions currentSession (currentTime # ts) =
     (let timeDiff = currentTime - sess_end currentSession
      in if timeDiff \<le> 3600000
         then sessions_loop sessions
                (currentSession\<lparr>sess_end := currentTime,
                                activities := activities currentSession + 1\<rparr>) ts
         else sessions_loop (sessions @ [close_session currentSession])
                (new_session currentTime) ts)"

text \<open>The code after the sort, on the timestamps in the order of the sorted array: no
  session for no statement, else the first statement opens the first session.\<close>

definition sessions_of :: "int list \<Rightarrow> session list" where
  "sessions_of stamps =
     (case stamps of
        [] \<Rightarrow> []
      | t # ts \<Rightarrow> sessions_loop [] (new_session t) ts)"

text \<open>\<^verbatim>\<open>statements.sort((a, b) => new Date(a.timestamp) - new Date(b.timestamp))\<close> is a
  stable ascending sort.\<close>

definition calculateStudySessions :: "statement list \<Rightarrow> session list" where
  "calculateStudySessions statements =
     sessions_of (map timestamp (sort_key timestamp statements))"

section \<open>Engagement analyzer: learning streak\<close>

definition ms_per_day :: int where
  "ms_per_day = 1000 * 60 * 60 * 24"

text \<open>
  \<^verbatim>\<open>new Date(t).toISOString().split('T')[0]\<close> is the UTC calendar date of an instant. It is
  modelled by the number of the day since the epoch. \<^verbatim>\<open>new Date(dateString)\<close> is midnight
  UTC of that day, so the quotient \<^verbatim>\<open>(currentDate - prevDate) / (1000 * 60 * 60 * 24)\<close> of the
  code is the difference of the day numbers; for four-digit years the order of the date
  strings is the order of the day numbers.
\<close>

definition utc_day :: "int \<Rightarrow> int" where
  "utc_day t = t div ms_per_day"

record streak =
  current :: nat
  longest :: nat
  totalDays :: nat

text \<open>\<^verbatim>\<open>[...new Set(xs)]\<close>\<close>

definition unique_values :: "'a list \<Rightarrow> 'a list" where
  "unique_values xs = fold set_add xs []"

text \<open>The first loop, over neighbouring dates in ascending order: the pair of
  \<^verbatim>\<open>longestStreak\<close> and \<^verbatim>\<open>streakCount\<close> when it ends.\<close>

fun streak_loop :: "nat \<Rightarrow> nat \<Rightarrow> int list \<Rightarrow> nat \<times> nat" where
  "streak_loop longestStreak streakCount (prevDate # currentDate # rest) =
     (if currentDate - prevDate = 1
      then streak_loop longestStreak (streakCount + 1) (currentDate # rest)
      else streak_loop (max longestStreak streakCount) 1 (currentDate # rest))"
| "streak_loop longestStreak streakCount [d] = (longestStreak, streakCount)"
| "streak_loop longestStreak streakCount [] = (longestStreak, streakCount)"

text \<open>The second loop walks back from the last date; its argument is the list of dates
  newest first. It stops at the first step that is not one day.\<close>

fun current_loop :: "nat \<Rightarrow> int list \<Rightarrow> nat" where
  "current_loop currentStreak (currentDate # prevDate # rest) =
     (if currentDate - prevDate = 1
      then current_loop (currentStreak + 1) (prevDate # rest)
      else currentStreak)"
| "current_loop currentStreak [d] = currentStreak"
| "current_loop currentStreak [] = currentStreak"

text \<open>
  \<^verbatim>\<open>calculateLearningStreak\<close> takes the statements only and reads the clock itself
  (\<^verbatim>\<open>new Date()\<close>); the value the clock returns is the first argument of the model.
\<close>

definition calculateLearningStreak :: "int \<Rightarrow> statement list \<Rightarrow> streak" where
  "calculateLearningStreak clock statements =
     (if statements = [] then \<lparr>current = 0, longest = 0, totalDays = 0\<rparr>
      else
        (let activityDates = sort (unique_values (map (\<lambda>stmt. utc_day (timestamp stmt)) statements));
             (longestStreak0, streakCount) = streak_loop 0 1 activityDates;
             longestStreak = max longestStreak0 streakCount;
             today = utc_day clock;
             lastActivityDate = last activityDates;
             daysSinceLastActivity = today - lastActivityDate;
             currentStreak = (if daysSinceLastActivity \<le> 1
                              then current_loop 0 (rev activityDates) + 1 else 0)
         in \<lparr>current = currentStreak, longest = longestStreak,
             totalDays = length activityDates\<rparr>))"

section \<open>Data quality\<close>

record quality =
  q_score :: int
  issues :: "string list"
  completeness :: rat
  freshness :: rat

text \<open>\<^verbatim>\<open>Math.max(...xs)\<close> over a list that is not empty.\<close>

fun latest_of :: "int \<Rightarrow> int list \<Rightarrow> int" where
  "latest_of t ts = fold max ts t"

text \<open>
  \<^verbatim>\<open>assessDataQuality\<close> takes the statements only and reads the clock itself
  (\<^verbatim>\<open>new Date()\<close>); the value the clock returns is the first argument of the model.
\<close>

definition assessDataQuality :: "int \<Rightarrow> statement list \<Rightarrow> quality" where
  "assessDataQuality clock statements =
     (let quality = \<lparr>q_score = 100, issues = [], completeness = 100, freshness = 100\<rparr>;
          quality1 =
            (case statements of
               s # rest \<Rightarrow>
                 (let latestActivity = latest_of (timestamp s) (map timestamp rest);
                      daysSinceLatest = of_int (clock - latestActivity) / of_int ms_per_day
                  in if daysSinceLatest > 7
                     then quality\<lparr>freshness := max 0 (100 - (daysSinceLatest - 7) * 10),
                                  issues := issues quality @ [''Data is more than a week old'']\<rparr>
                     else quality)
             | [] \<Rightarrow> quality\<lparr>freshness := 0,
                              issues := issues quality @ [''No activity data available'']\<rparr>);
          statementsWithResults = filter (\<lambda>s. stmt_result s \<noteq> None) statements;
          resultCompleteness =
            (if length statements > 0
             then (of_nat (length statementsWithResults) / of_nat (length statements)) * 100
             else 0);
          quality2 =
            (if resultCompleteness < 80
             then quality1\<lparr>completeness := resultCompleteness,
                           issues := issues quality1 @ [''Some activities missing result data'']\<rparr>
             else quality1)
      in quality2\<lparr>q_score := js_round ((completeness quality2 + freshness quality2) / 2)\<rparr>)"

section \<open>Score aggregator\<close>

datatype trend = Improving | Declining | Stable

text \<open>
  The object \<^verbatim>\<open>aggregateScores\<close> builds for every statement with a score. \<^verbatim>\<open>bestScore\<close>
  and \<^verbatim>\<open>firstAttempt\<close> are the properties added to the latest record of an activity.
\<close>

record score_entry =
  activity :: string
  activityId :: string
  score :: int
  rawScore :: "rat option"
  maxScore :: "rat option"
  success :: "bool option"
  entry_timestamp :: int
  attempts :: nat
  bestScore :: "int option"
  firstAttempt :: "int option"

text \<open>The letter-grade counters, in the order of the keys \<^verbatim>\<open>'A (90-100)'\<close>, \<^verbatim>\<open>'B (80-89)'\<close>,
  \<^verbatim>\<open>'C (70-79)'\<close>, \<^verbatim>\<open>'D (60-69)'\<close>, \<^verbatim>\<open>'F (0-59)'\<close>.\<close>

record distribution =
  grade_A :: nat
  grade_B :: nat
  grade_C :: nat
  grade_D :: nat
  grade_F :: nat

text \<open>The summary; the early return for an empty input has no \<^verbatim>\<open>distribution\<close> property.\<close>

record score_summary =
  scores :: "score_entry list"
  average :: jsnum
  highest :: jsnum
  lowest :: jsnum
  totalAttempts :: nat
  passRate :: jsnum
  trend :: trend
  distribution :: "distribution option"

text \<open>The \<^verbatim>\<open>map\<close> callback that turns a statement with score \<open>sc\<close> into an entry.\<close>

definition to_entry :: "statement \<Rightarrow> score_t \<Rightarrow> score_entry" where
  "to_entry stmt sc =
     \<lparr>activity = name_or (case object_definition stmt of None \<Rightarrow> [] | Some d \<Rightarrow> def_name d)
                    ''Unknown Assessment'',
      activityId = object_id stmt,
      score = js_round (scaled sc * 100),
      rawScore = raw sc,
      maxScore = max_score sc,
      success = (case stmt_result stmt of None \<Rightarrow> None | Some r \<Rightarrow> res_success r),
      entry_timestamp = timestamp stmt,
      attempts = 1,
      bestScore = None,
      firstAttempt = None\<rparr>"

text \<open>\<^verbatim>\<open>scoreStatements.filter(stmt => stmt.result?.score).map(...)\<close>\<close>

definition score_entries :: "statement list \<Rightarrow> score_entry list" where
  "score_entries scoreStatements =
     concat (map (\<lambda>stmt. case result_score stmt of None \<Rightarrow> [] | Some sc \<Rightarrow> [to_entry stmt sc])
               scoreStatements)"

text \<open>The \<^verbatim>\<open>reduce\<close> callback that groups by \<^verbatim>\<open>activityId\<close>: the groups in the order in
  which their keys were first seen.\<close>

fun group_push :: "score_entry \<Rightarrow> (string \<times> score_entry list) list
                     \<Rightarrow> (string \<times> score_entry list) list" where
  "group_push s [] = [(activityId s, [s])]"
| "group_push s ((key, grp) # groups) =
     (if key = activityId s then (key, grp @ [s]) # groups
      else (key, grp) # group_push s groups)"

definition activityGroups :: "score_entry list \<Rightarrow> (string \<times> score_entry list) list" where
  "activityGroups entries = fold group_push entries []"

text \<open>
  The callback over \<^verbatim>\<open>Object.values(activityGroups)\<close>: the latest record of the group
  (\<^verbatim>\<open>group.sort((a, b) => b.timestamp - a.timestamp)[0]\<close>, a stable sort) with the number
  of attempts, the best score and the first attempt time. A group is never empty, and the
  latest record is one of its members, so the maximum and the minimum over the group are
  folded from that record.
\<close>

definition process_group :: "score_entry list \<Rightarrow> score_entry" where
  "process_group grp =
     (let latest = hd (sort_key (\<lambda>s. - entry_timestamp s) grp)
      in latest\<lparr>attempts := length grp,
                bestScore := Some (fold max (map score grp) (score latest)),
                firstAttempt := Some (fold min (map entry_timestamp grp)
                                        (entry_timestamp latest))\<rparr>)"

definition mean_score :: "score_entry list \<Rightarrow> rat" where
  "mean_score entries = of_int (sum_list (map score entries)) / of_nat (length entries)"

text \<open>
  \<^verbatim>\<open>calculateScoreTrend\<close>. With two or more entries it sorts its argument in place,
  oldest first, so the model returns the array as the call leaves it together with the
  trend. Both halves have an entry then, so the means are finite.
\<close>

definition calculateScoreTrend :: "score_entry list \<Rightarrow> trend \<times> score_entry list" where
  "calculateScoreTrend entries =
     (if length entries < 2 then (Stable, entries)
      else
        (let sortedByTime = sort_key entry_timestamp entries;
             midPoint = length sortedByTime div 2;
             firstHalf = take midPoint sortedByTime;
             secondHalf = drop midPoint sortedByTime;
             firstAvg = mean_score firstHalf;
             secondAvg = mean_score secondHalf;
             difference = secondAvg - firstAvg
         in (if difference > 5 then Improving
             else if difference < - 5 then Declining
             else Stable, sortedByTime)))"

text \<open>The \<^verbatim>\<open>forEach\<close> callback of \<^verbatim>\<open>calculateScoreDistribution\<close>.\<close>

definition count_grade :: "int \<Rightarrow> distribution \<Rightarrow> distribution" where
  "count_grade sc ranges =
     (if sc \<ge> 90 then ranges\<lparr>grade_A := grade_A ranges + 1\<rparr>
      else if sc \<ge> 80 then ranges\<lparr>grade_B := grade_B ranges + 1\<rparr>
      else if sc \<ge> 70 then ranges\<lparr>grade_C := grade_C ranges + 1\<rparr>
      else if sc \<ge> 60 then ranges\<lparr>grade_D := grade_D ranges + 1\<rparr>
      else ranges\<lparr>grade_F := grade_F ranges + 1\<rparr>)"

definition calculateScoreDistribution :: "int list \<Rightarrow> distribution" where
  "calculateScoreDistribution scoreValues =
     fold count_grade scoreValues
       \<lparr>grade_A = 0, grade_B = 0, grade_C = 0, grade_D = 0, grade_F = 0\<rparr>"

definition aggregateScores :: "statement list \<Rightarrow> score_summary" where
  "aggregateScores scoreStatements =
     (if scoreStatements = [] then
        \<lparr>scores = [], average = Fin 0, highest = Fin 0, lowest = Fin 0, totalAttempts = 0,
         passRate = Fin 0, trend = Stable, distribution = None\<rparr>
      else
        (let entries = score_entries scoreStatements;
             processedScores = map (\<lambda>(key, grp). process_group grp) (activityGroups entries);
             scoreValues = map score processedScores;
             average = js_div (of_int (sum_list scoreValues)) (of_nat (length scoreValues));
             highest = Math_max scoreValues;
             lowest = Math_min scoreValues;
             passCount = length (filter (\<lambda>s. success s = Some True) processedScores);
             passRate = js_times100 (js_div (of_nat passCount) (of_nat (length processedScores)));
             (trend, processedScores') = calculateScoreTrend processedScores
         in \<lparr>scores = sort_key (\<lambda>s. - entry_timestamp s) processedScores',
             average = Math_round average,
             highest = highest,
             lowest = lowest,
             totalAttempts = length entries,
             passRate = Math_round passRate,
             trend = trend,
             distribution = Some (calculateScoreDistribution scoreValues)\<rparr>))"


section \<open>Anomaly detector\<close>

datatype severity = High | Medium | Low

datatype anomaly_type = Suspicious_scores | Large_improvement | Activity_spike

datatype risk_level = Risk_none | Risk_low | Risk_medium | Risk_high

text \<open>An anomaly object; its \<^verbatim>\<open>message\<close> text plays no part in the risk level and is left
  out.\<close>

record anomaly =
  anomaly_kind :: anomaly_type
  anomaly_severity :: severity

text \<open>A day of the timeline, as far as the detector reads it.\<close>

record day_bucket =
  day_date :: int
  day_totalActivities :: nat

text \<open>The argument of \<^verbatim>\<open>detectAnomalies\<close>: \<^verbatim>\<open>data.scores\<close> and \<^verbatim>\<open>data.timeline\<close> may be
  missing; a score summary always has its \<^verbatim>\<open>scores\<close> array.\<close>

record summary_data =
  data_scores :: "score_summary option"
  data_timeline :: "day_bucket list option"

record anomaly_report =
  hasAnomalies :: bool
  anomalies :: "anomaly list"
  riskLevel :: risk_level

text \<open>\<^verbatim>\<open>severityCounts[sev]\<close> after the \<^verbatim>\<open>reduce\<close>; a severity never met is \<^verbatim>\<open>undefined\<close>,
  and \<^verbatim>\<open>undefined > n\<close> is false, as \<open>0 > n\<close> is.\<close>

definition severityCount :: "severity \<Rightarrow> anomaly list \<Rightarrow> nat" where
  "severityCount sev as = length (filter (\<lambda>a. anomaly_severity a = sev) as)"

definition calculateRiskLevel :: "anomaly list \<Rightarrow> risk_level" where
  "calculateRiskLevel as =
     (if length as = 0 then Risk_none
      else if severityCount High as > 0 then Risk_high
      else if severityCount Medium as > 1 then Risk_high
      else if severityCount Medium as > 0 then Risk_medium
      else Risk_low)"

text \<open>The block guarded by \<^verbatim>\<open>data.scores && data.scores.scores\<close>.\<close>

definition score_anomalies :: "int list \<Rightarrow> anomaly list" where
  "score_anomalies scs =
     (let anomalies1 =
            (if length scs > 5 \<and> list_all (\<lambda>s. s = 100) scs
             then [\<lparr>anomaly_kind = Suspicious_scores, anomaly_severity = Medium\<rparr>] else []);
          sortedScores = sort scs
      in if length sortedScores > 1
         then (let improvement = last sortedScores - hd sortedScores
               in if improvement > 50
                  then anomalies1 @ [\<lparr>anomaly_kind = Large_improvement, anomaly_severity = Low\<rparr>]
                  else anomalies1)
         else anomalies1)"

text \<open>The block guarded by \<^verbatim>\<open>data.timeline\<close>. For an empty timeline \<^verbatim>\<open>maxActivities\<close> is
  \<^verbatim>\<open>-Infinity\<close> and \<^verbatim>\<open>avgActivities\<close> is \<^verbatim>\<open>NaN\<close>, and the comparison is false.\<close>

definition timeline_anomalies :: "day_bucket list \<Rightarrow> anomaly list" where
  "timeline_anomalies timeline =
     (let activities = map day_totalActivities timeline
      in case activities of
           [] \<Rightarrow> []
         | a # rest \<Rightarrow>
             (let maxActivities = fold max rest a;
                  avgActivities = (of_nat (sum_list activities) :: rat) / of_nat (length activities)
              in if of_nat maxActivities > avgActivities * 5
                 then [\<lparr>anomaly_kind = Activity_spike, anomaly_severity = Low\<rparr>] else []))"

definition detectAnomalies :: "summary_data \<Rightarrow> anomaly_report" where
  "detectAnomalies data =
     (let anomalies1 = (case data_scores data of
                          None \<Rightarrow> []
                        | Some summary \<Rightarrow> score_anomalies (map score (scores summary)));
          anomalies2 = (case data_timeline data of
                          None \<Rightarrow> anomalies1
                        | Some timeline \<Rightarrow> anomalies1 @ timeline_anomalies timeline)
      in \<lparr>hasAnomalies = length anomalies2 > 0,
          anomalies = anomalies2,
          riskLevel = calculateRiskLevel anomalies2\<rparr>)"

section \<open>Predicates and inputs used in the statements\<close>

text \<open>A statement carries no \<^verbatim>\<open>result.score\<close>.\<close>

definition score_free :: "statement \<Rightarrow> bool" where
  "score_free stmt = (result_score stmt = None)"

text \<open>Every entry of a score list is a perfect 100.\<close>

definition all_perfect :: "score_entry list \<Rightarrow> bool" where
  "all_perfect es = list_all (\<lambda>e. score e = 100) es"

text \<open>The anomalies of a list that are not of low severity.\<close>

definition above_low :: "anomaly list \<Rightarrow> anomaly list" where
  "above_low as = filter (\<lambda>a. anomaly_severity a \<noteq> Low) as"







text \<open>A perfect entry of a score list for activity \<open>a\<close>.\<close>

definition perfect_entry :: "string \<Rightarrow> int \<Rightarrow> score_entry" where
  "perfect_entry a t =
     \<lparr>activity = ''Unknown Assessment'', activityId = a, score = 100, rawScore = None,
      maxScore = None, success = Some True, entry_timestamp = t, attempts = 1,
      bestScore = Some 100, firstAttempt = Some t\<rparr>"

definition summary_of :: "score_entry list \<Rightarrow> score_summary" where
  "summary_of es =
     \<lparr>scores = es, average = Fin 100, highest = Fin 100, lowest = Fin 100,
      totalAttempts = length es, passRate = Fin 100, trend = Stable,
      distribution = Some \<lparr>grade_A = length es, grade_B = 0, grade_C = 0, grade_D = 0,
                            grade_F = 0\<rparr>\<rparr>"

text \<open>Five and six perfect scores, on distinct activities.\<close>

definition five_entries :: "score_entry list" where
  "five_entries = [perfect_entry ''q5'' 5, perfect_entry ''q4'' 4, perfect_entry ''q3'' 3,
                   perfect_entry ''q2'' 2, perfect_entry ''q1'' 1]"

definition six_entries :: "score_entry list" where
  "six_entries = perfect_entry ''q6'' 6 # five_entries"

definition five_perfect :: summary_data where
  "five_perfect =
     \<lparr>data_scores = Some (summary_of five_entries),
      data_timeline = Some [\<lparr>day_date = 0, day_totalActivities = 5\<rparr>]\<rparr>"

definition six_perfect :: summary_data where
  "six_perfect =
     \<lparr>data_scores = Some (summary_of six_entries),
      data_timeline = Some [\<lparr>day_date = 0, day_totalActivities = 6\<rparr>]\<rparr>"

text \<open>A summary with a wide spread of scores and a day of unusually high activity.\<close>

definition spread_data :: summary_data where
  "spread_data =
     \<lparr>data_scores = Some (summary_of [(perfect_entry ''q2'' 2)\<lparr>score := 95\<rparr>,
                                       (perfect_entry ''q1'' 1)\<lparr>score := 40\<rparr>]),
      data_timeline = Some [\<lparr>day_date = 0, day_totalActivities = 1\<rparr>,
                            \<lparr>day_date = 1, day_totalActivities = 1\<rparr>,
                            \<lparr>day_date = 2, day_totalActivities = 1\<rparr>,
                            \<lparr>day_date = 3, day_totalActivities = 1\<rparr>,
                            \<lparr>day_date = 4, day_totalActivities = 1\<rparr>,
                            \<lparr>day_date = 5, day_totalActivities = 1\<rparr>,
                            \<lparr>day_date = 6, day_totalActivities = 50\<rparr>]\<rparr>"

text \<open>A single quiz statement without a result, and two scored attempts at one quiz.\<close>

definition unscored_only :: "statement list" where
  "unscored_only =
     [\<lparr>actor_name = Some ''John Doe'',
       verb_id = ''http://adlnet.gov/expapi/verbs/attempted'',
       object_id = ''http://example.com/course/quiz1'',
       object_definition = None, stmt_result = None, timestamp = 1000\<rparr>]"


section \<open>Notions of the specification\<close>

text \<open>The statements that carry a \<^verbatim>\<open>result.score\<close>.\<close>

definition score_bearing :: "statement list \<Rightarrow> statement list" where
  "score_bearing ss = filter (\<lambda>s. \<not> score_free s) ss"

text \<open>The percentage of statements carrying a result, 0 for no statements.\<close>

definition result_percentage :: "statement list \<Rightarrow> rat" where
  "result_percentage ss =
     (if ss = [] then 0
      else of_nat (length (filter (\<lambda>s. stmt_result s \<noteq> None) ss)) / of_nat (length ss) * 100)"




text \<open>The set of UTC calendar days on which a statement list has activity.\<close>

definition active_days :: "statement list \<Rightarrow> int set" where
  "active_days ss = set (map (\<lambda>stmt. utc_day (timestamp stmt)) ss)"



text \<open>Two statements without a result, the later one on day 2; a clock on day 10.\<close>

definition stale_pair :: "statement list" where
  "stale_pair = [stmt0 verb_completed ''m1'' (1 * ms_per_day), stmt0 verb_completed ''m2'' (2 * ms_per_day)]"

text \<open>Activity on days 1, 2, 3 and 10 (two statements on day 2), not in order.\<close>

definition streak_days :: "statement list" where
  "streak_days =
     [stmt0 verb_completed ''m4'' (10 * ms_per_day + 3600000),
      stmt0 verb_completed ''m1'' (1 * ms_per_day + 5000),
      stmt0 verb_completed ''m3'' (3 * ms_per_day),
      stmt0 verb_completed ''m2'' (2 * ms_per_day + 86399999),
      stmt0 verb_completed ''m2'' (2 * ms_per_day + 1)]"

text \<open>Three statements in ascending order: the second exactly one hour after the first,
  the third one hour and a millisecond after the second.\<close>

definition hour_apart :: "statement list" where
  "hour_apart =
     [stmt0 verb_completed ''m1'' 1000, stmt0 verb_completed ''m2'' 3601000,
      stmt0 verb_completed ''m3'' 7201001]"







section \<open>Facts about the JavaScript primitives\<close>


lemma set_add_set: "set (set_add x xs) = insert x (set xs)"
  by (auto simp: set_add_def)

lemma set_add_distinct: "distinct xs \<Longrightarrow> distinct (set_add x xs)"
  by (auto simp: set_add_def)

lemma fold_set_add_set: "set (fold set_add xs acc) = set acc \<union> set xs"
  by (induction xs arbitrary: acc) (auto simp: set_add_set)

lemma fold_set_add_distinct: "distinct acc \<Longrightarrow> distinct (fold set_add xs acc)"
  by (induction xs arbitrary: acc) (auto simp: set_add_distinct)

section \<open>Progress: percentage and counts\<close>














lemma filter_completion_set: "set (filter is_completion ss) = {s \<in> set ss. verb_id s = verb_completed}"
  by (auto simp: is_completion_def)




section \<open>Study sessions: the one-hour boundary\<close>

lemma sessions_loop_acc:
  "sessions_loop acc cur ts = acc @ sessions_loop [] cur ts"
proof (induction ts arbitrary: acc cur)
  case Nil
  show ?case by simp
next
  case (Cons t ts)
  show ?case
  proof (cases "t - sess_end cur \<le> 3600000")
    case True
    then show ?thesis using Cons.IH [of acc] by (simp add: Let_def)
  next
    case False
    then show ?thesis
      using Cons.IH [of "acc @ [close_session cur]"] Cons.IH [of "[close_session cur]"]
      by (simp add: Let_def)
  qed
qed

text \<open>A gap above one hour splits the run.\<close>

lemma sessions_loop_split:
  "3600000 < b - a \<Longrightarrow>
   sessions_loop [] cur (xs @ a # b # ys) =
     sessions_loop [] cur (xs @ [a]) @ sessions_loop [] (new_session b) ys"
proof (induction xs arbitrary: cur)
  case Nil
  show ?case
  proof (cases "a - sess_end cur \<le> 3600000")
    case True
    then show ?thesis
      using Nil sessions_loop_acc [of "[close_session (cur\<lparr>sess_end := a, activities := activities cur + 1\<rparr>)]"]
      by (simp add: Let_def)
  next
    case False
    then show ?thesis
      using Nil sessions_loop_acc [of "[close_session cur, close_session (new_session a)]" "new_session b" ys]
        sessions_loop_acc [of "[close_session cur]" "new_session a" "[b]"]
      by (simp add: Let_def new_session_def)
  qed
next
  case (Cons x xs)
  show ?case
  proof (cases "x - sess_end cur \<le> 3600000")
    case True
    then show ?thesis using Cons.IH [OF Cons.prems] by (simp add: Let_def)
  next
    case False
    then show ?thesis
      using Cons.IH [OF Cons.prems, of "new_session x"]
        sessions_loop_acc [of "[close_session cur]" "new_session x" "xs @ a # b # ys"]
        sessions_loop_acc [of "[close_session cur]" "new_session x" "xs @ [a]"]
      by (simp add: Let_def)
  qed
qed

text \<open>The session in progress ends up in the result, with its start and an end no earlier.\<close>

lemma sessions_loop_keeps_current:
  "sorted (sess_end cur # ts) \<Longrightarrow>
   \<exists>s \<in> set (sessions_loop [] cur ts). sess_start s = sess_start cur \<and> sess_end cur \<le> sess_end s"
proof (induction ts arbitrary: cur)
  case Nil
  show ?case by (simp add: close_session_def)
next
  case (Cons t ts)
  show ?case
  proof (cases "t - sess_end cur \<le> 3600000")
    case True
    let ?c = "cur\<lparr>sess_end := t, activities := activities cur + 1\<rparr>"
    have "sorted (sess_end ?c # ts)" using Cons.prems by simp
    from Cons.IH [OF this] obtain s where
      "s \<in> set (sessions_loop [] ?c ts)" "sess_start s = sess_start cur" "t \<le> sess_end s"
      by auto
    moreover have "sess_end cur \<le> t" using Cons.prems by simp
    ultimately show ?thesis using True by (auto simp: Let_def)
  next
    case False
    then show ?thesis
      using sessions_loop_acc [of "[close_session cur]" "new_session t" ts]
      by (simp add: Let_def close_session_def)
  qed
qed

text \<open>A gap of at most one hour keeps both statements in one session.\<close>

lemma sessions_loop_join:
  assumes "b - a \<le> 3600000" and "sorted (xs @ a # b # ys)"
    and "sess_start cur \<le> sess_end cur" and "\<forall>x \<in> set (xs @ [a]). sess_end cur \<le> x"
  shows "\<exists>s \<in> set (sessions_loop [] cur (xs @ a # b # ys)). sess_start s \<le> a \<and> b \<le> sess_end s"
  using assms
proof (induction xs arbitrary: cur)
  case Nil
  have sorted_b: "sorted (b # ys)" using Nil.prems(2) by simp
  show ?case
  proof (cases "a - sess_end cur \<le> 3600000")
    case True
    let ?c = "cur\<lparr>sess_end := b, activities := activities cur + 1 + 1\<rparr>"
    have "sorted (sess_end ?c # ys)" using sorted_b by simp
    from sessions_loop_keeps_current [OF this] obtain s where
      s: "s \<in> set (sessions_loop [] ?c ys)" "sess_start s = sess_start cur" "b \<le> sess_end s"
      by auto
    have "sess_start cur \<le> a" using Nil.prems(3,4) by simp
    then have "sess_start s \<le> a \<and> b \<le> sess_end s" using s by simp
    moreover have "sessions_loop [] cur (a # b # ys) = sessions_loop [] ?c ys"
      using True Nil.prems(1) by (simp add: Let_def)
    ultimately show ?thesis using s(1) by auto
  next
    case False
    let ?c = "(new_session a)\<lparr>sess_end := b, activities := activities (new_session a) + 1\<rparr>"
    have "sorted (sess_end ?c # ys)" using sorted_b by simp
    from sessions_loop_keeps_current [OF this] obtain s where
      s: "s \<in> set (sessions_loop [] ?c ys)" "sess_start s = a" "b \<le> sess_end s"
      by (auto simp: new_session_def)
    have "sessions_loop [] cur (a # b # ys) = [close_session cur] @ sessions_loop [] ?c ys"
      using False Nil.prems(1) sessions_loop_acc [of "[close_session cur]" ?c ys]
      by (simp add: Let_def new_session_def)
    then show ?thesis using s by auto
  qed
next
  case (Cons x xs)
  have sorted_rest: "sorted (xs @ a # b # ys)" using Cons.prems(2) by simp
  have x_le: "\<forall>y \<in> set (xs @ [a]). x \<le> y" using Cons.prems(2) by (auto simp: sorted_append)
  show ?case
  proof (cases "x - sess_end cur \<le> 3600000")
    case True
    let ?c = "cur\<lparr>sess_end := x, activities := activities cur + 1\<rparr>"
    have "sess_start ?c \<le> sess_end ?c" using Cons.prems(3,4) by simp
    moreover have "\<forall>y \<in> set (xs @ [a]). sess_end ?c \<le> y" using x_le by simp
    ultimately obtain s where
      "s \<in> set (sessions_loop [] ?c (xs @ a # b # ys))" "sess_start s \<le> a" "b \<le> sess_end s"
      using Cons.IH [OF Cons.prems(1) sorted_rest, of ?c] by blast
    then show ?thesis using True by (auto simp: Let_def)
  next
    case False
    let ?c = "new_session x"
    have "sess_start ?c \<le> sess_end ?c" by (simp add: new_session_def)
    moreover have "\<forall>y \<in> set (xs @ [a]). sess_end ?c \<le> y" using x_le by (simp add: new_session_def)
    ultimately obtain s where
      s: "s \<in> set (sessions_loop [] ?c (xs @ a # b # ys))" "sess_start s \<le> a" "b \<le> sess_end s"
      using Cons.IH [OF Cons.prems(1) sorted_rest, of ?c] by blast
    have "sessions_loop [] cur (x # xs @ a # b # ys) =
            [close_session cur] @ sessions_loop [] ?c (xs @ a # b # ys)"
      using False sessions_loop_acc [of "[close_session cur]" ?c "xs @ a # b # ys"]
      by (simp add: Let_def)
    then show ?thesis using s by auto
  qed
qed

text \<open>The last session of the result is the one that was open at the end; it is closed.\<close>

lemma sessions_loop_last:
  "sessions_loop acc cur ts \<noteq> []
   \<and> sess_end (last (sessions_loop acc cur ts)) = last (sess_end cur # ts)
   \<and> duration (last (sessions_loop acc cur ts)) =
       Some (of_int (sess_end (last (sessions_loop acc cur ts))
                     - sess_start (last (sessions_loop acc cur ts))) / 1000)"
proof (induction ts arbitrary: acc cur)
  case Nil
  show ?case by (simp add: close_session_def)
next
  case (Cons t ts)
  show ?case
  proof (cases "t - sess_end cur \<le> 3600000")
    case True
    then show ?thesis
      using Cons.IH [of acc "cur\<lparr>sess_end := t, activities := activities cur + 1\<rparr>"]
      by (simp add: Let_def)
  next
    case False
    then show ?thesis
      using Cons.IH [of "acc @ [close_session cur]" "new_session t"]
      by (simp add: Let_def new_session_def)
  qed
qed

lemma sessions_loop_activities:
  "sum_list (map activities (sessions_loop acc cur ts)) =
     sum_list (map activities acc) + activities cur + length ts"
proof (induction ts arbitrary: acc cur)
  case Nil
  show ?case by (simp add: close_session_def)
next
  case (Cons t ts)
  show ?case
  proof (cases "t - sess_end cur \<le> 3600000")
    case True
    then show ?thesis
      using Cons.IH [of acc "cur\<lparr>sess_end := t, activities := activities cur + 1\<rparr>"]
      by (simp add: Let_def)
  next
    case False
    then show ?thesis
      using Cons.IH [of "acc @ [close_session cur]" "new_session t"]
      by (simp add: Let_def new_session_def close_session_def)
  qed
qed

lemma sessions_loop_hd:
  "sessions_loop [] cur ts \<noteq> [] \<and> sess_start (hd (sessions_loop [] cur ts)) = sess_start cur"
proof (induction ts arbitrary: cur)
  case Nil
  show ?case by (simp add: close_session_def)
next
  case (Cons t ts)
  show ?case
  proof (cases "t - sess_end cur \<le> 3600000")
    case True
    then show ?thesis
      using Cons.IH [of "cur\<lparr>sess_end := t, activities := activities cur + 1\<rparr>"]
      by (simp add: Let_def)
  next
    case False
    then show ?thesis
      using sessions_loop_acc [of "[close_session cur]" "new_session t" ts]
      by (simp add: Let_def close_session_def)
  qed
qed

lemma sessions_of_split:
  assumes "3600000 < b - a"
  shows "sessions_of (xs @ a # b # ys) = sessions_of (xs @ [a]) @ sessions_of (b # ys)"
proof (cases xs)
  case Nil
  then show ?thesis
    using assms sessions_loop_acc [of "[close_session (new_session a)]" "new_session b" ys]
    by (simp add: sessions_of_def Let_def new_session_def)
next
  case (Cons x xs')
  then show ?thesis
    using sessions_loop_split [OF assms, of "new_session x" xs' ys]
    by (simp add: sessions_of_def)
qed

lemma sessions_of_join:
  assumes "b - a \<le> 3600000" and "sorted (xs @ a # b # ys)"
  shows "\<exists>s \<in> set (sessions_of (xs @ a # b # ys)). sess_start s \<le> a \<and> b \<le> sess_end s"
proof (cases xs)
  case Nil
  let ?c = "(new_session a)\<lparr>sess_end := b, activities := activities (new_session a) + 1\<rparr>"
  have "sorted (sess_end ?c # ys)" using assms(2) Nil by simp
  from sessions_loop_keeps_current [OF this] obtain s where
    s: "s \<in> set (sessions_loop [] ?c ys)" "sess_start s = a" "b \<le> sess_end s"
    by (auto simp: new_session_def)
  have "sessions_of (xs @ a # b # ys) = sessions_loop [] ?c ys"
    using Nil assms(1) by (simp add: sessions_of_def Let_def new_session_def)
  then show ?thesis using s by auto
next
  case (Cons x xs')
  have "sorted (xs' @ a # b # ys)" using assms(2) Cons by simp
  moreover have "sess_start (new_session x) \<le> sess_end (new_session x)"
    by (simp add: new_session_def)
  moreover have "\<forall>y \<in> set (xs' @ [a]). sess_end (new_session x) \<le> y"
    using assms(2) Cons by (auto simp: new_session_def sorted_append)
  ultimately show ?thesis
    using sessions_loop_join [OF assms(1), of xs' ys "new_session x"] Cons
    by (simp add: sessions_of_def)
qed

lemma sessions_of_last:
  assumes "ts \<noteq> []"
  shows "sessions_of ts \<noteq> []
   \<and> sess_end (last (sessions_of ts)) = last ts
   \<and> duration (last (sessions_of ts)) =
       Some (of_int (sess_end (last (sessions_of ts)) - sess_start (last (sessions_of ts))) / 1000)"
proof -
  obtain t rest where ts: "ts = t # rest" using assms by (cases ts) auto
  show ?thesis
    using sessions_loop_last [of "[]" "new_session t" rest]
    unfolding ts sessions_of_def by (simp add: new_session_def)
qed

lemma sessions_of_hd: "sess_start (hd (sessions_of (b # ys))) = b"
  using sessions_loop_hd [of "new_session b" ys]
  by (simp add: sessions_of_def new_session_def)

lemma sessions_of_activities: "sum_list (map activities (sessions_of ts)) = length ts"
  by (cases ts) (simp_all add: sessions_of_def sessions_loop_activities new_session_def)

lemma sessions_of_single:
  "sessions_of [t] = [\<lparr>sess_start = t, sess_end = t, activities = 1, duration = Some 0\<rparr>]"
  by (simp add: sessions_of_def new_session_def close_session_def)

lemma study_sessions_sorted:
  "sorted (map timestamp ss) \<Longrightarrow> calculateStudySessions ss = sessions_of (map timestamp ss)"
  by (simp add: calculateStudySessions_def sort_key_id_if_sorted)

text \<open>
  Claim C8. On statements in ascending order of timestamp: two neighbours at most
  3600000 ms apart (so also exactly 3600000 ms apart) lie in one session, whose span covers
  both; two neighbours more than 3600000 ms apart (so also 3600001 ms apart) are separated,
  a session ends at the first and the next one starts at the second, the sessions being
  those of the two parts taken alone. For an input that is not empty the result is not
  empty and its last session is closed (it has its duration) and ends at the last
  statement; the activity counts add up to the number of statements, so every statement
  is in a session. A single statement gives one session of one activity and 0 seconds.
\<close>

theorem calculateStudySessions_boundary:
  assumes "sorted (map timestamp ss)"
  shows
    "(ss = xs @ a # b # ys \<and> timestamp b - timestamp a \<le> 3600000 \<longrightarrow>
        (\<exists>s \<in> set (calculateStudySessions ss).
           sess_start s \<le> timestamp a \<and> timestamp b \<le> sess_end s))
     \<and> (ss = xs @ a # b # ys \<and> 3600000 < timestamp b - timestamp a \<longrightarrow>
          calculateStudySessions ss =
            calculateStudySessions (xs @ [a]) @ calculateStudySessions (b # ys)
          \<and> sess_end (last (calculateStudySessions (xs @ [a]))) = timestamp a
          \<and> sess_start (hd (calculateStudySessions (b # ys))) = timestamp b)
     \<and> (ss \<noteq> [] \<longrightarrow>
          calculateStudySessions ss \<noteq> []
          \<and> sess_end (last (calculateStudySessions ss)) = timestamp (last ss)
          \<and> duration (last (calculateStudySessions ss)) =
              Some (of_int (sess_end (last (calculateStudySessions ss))
                            - sess_start (last (calculateStudySessions ss))) / 1000))
     \<and> sum_list (map activities (calculateStudySessions ss)) = length ss
     \<and> calculateStudySessions [a] =
         [\<lparr>sess_start = timestamp a, sess_end = timestamp a, activities = 1,
           duration = Some 0\<rparr>]"
proof -
  have eq: "calculateStudySessions ss = sessions_of (map timestamp ss)"
    using assms by (rule study_sessions_sorted)
  have join: "\<exists>s \<in> set (calculateStudySessions ss).
      sess_start s \<le> timestamp a \<and> timestamp b \<le> sess_end s"
    if h: "ss = xs @ a # b # ys" "timestamp b - timestamp a \<le> 3600000"
  proof -
    have "sorted (map timestamp xs @ timestamp a # timestamp b # map timestamp ys)"
      using assms h(1) by simp
    from sessions_of_join [OF h(2) this] show ?thesis
      using eq h(1) by simp
  qed
  have split: "calculateStudySessions ss =
            calculateStudySessions (xs @ [a]) @ calculateStudySessions (b # ys)
          \<and> sess_end (last (calculateStudySessions (xs @ [a]))) = timestamp a
          \<and> sess_start (hd (calculateStudySessions (b # ys))) = timestamp b"
    if h: "ss = xs @ a # b # ys" "3600000 < timestamp b - timestamp a"
  proof -
    have s1: "sorted (map timestamp (xs @ [a]))"
      using assms h(1) by (simp add: sorted_append)
    have s2: "sorted (map timestamp (b # ys))"
      using assms h(1) by (simp add: sorted_append)
    have e1: "calculateStudySessions (xs @ [a]) = sessions_of (map timestamp xs @ [timestamp a])"
      using study_sessions_sorted [OF s1] by simp
    have e2: "calculateStudySessions (b # ys) = sessions_of (timestamp b # map timestamp ys)"
      using study_sessions_sorted [OF s2] by simp
    have "calculateStudySessions ss =
            sessions_of (map timestamp xs @ timestamp a # timestamp b # map timestamp ys)"
      using eq h(1) by simp
    then have "calculateStudySessions ss =
            calculateStudySessions (xs @ [a]) @ calculateStudySessions (b # ys)"
      unfolding e1 e2 using sessions_of_split [OF h(2)] by simp
    moreover have "sess_end (last (calculateStudySessions (xs @ [a]))) = timestamp a"
      unfolding e1 using sessions_of_last [of "map timestamp xs @ [timestamp a]"] by simp
    moreover have "sess_start (hd (calculateStudySessions (b # ys))) = timestamp b"
      unfolding e2 by (rule sessions_of_hd)
    ultimately show ?thesis by simp
  qed
  have final: "calculateStudySessions ss \<noteq> []
          \<and> sess_end (last (calculateStudySessions ss)) = timestamp (last ss)
          \<and> duration (last (calculateStudySessions ss)) =
              Some (of_int (sess_end (last (calculateStudySessions ss))
                            - sess_start (last (calculateStudySessions ss))) / 1000)"
    if h: "ss \<noteq> []"
    unfolding eq using sessions_of_last [of "map timestamp ss"] h by (simp add: last_map)
  have act: "sum_list (map activities (calculateStudySessions ss)) = length ss"
    unfolding eq by (simp add: sessions_of_activities)
  have single: "calculateStudySessions [a] =
         [\<lparr>sess_start = timestamp a, sess_end = timestamp a, activities = 1,
           duration = Some 0\<rparr>]"
    by (simp add: calculateStudySessions_def sessions_of_single)
  show ?thesis using join split final act single by blast
qed

lemma hour_apart_sorted: "sorted (map timestamp hour_apart)"
  by (simp add: hour_apart_def stmt0_def)

lemma hour_apart_eval:
  "calculateStudySessions hour_apart =
     [\<lparr>sess_start = 1000, sess_end = 3601000, activities = 2, duration = Some 3600\<rparr>,
      \<lparr>sess_start = 7201001, sess_end = 7201001, activities = 1, duration = Some 0\<rparr>]"
  by code_simp

text \<open>An instance: gaps of 3600000 ms and of 3600001 ms.\<close>

theorem calculateStudySessions_boundary_witness:
  "sorted (map timestamp hour_apart)
   \<and> hour_apart = [] @ stmt0 verb_completed ''m1'' 1000 # stmt0 verb_completed ''m2'' 3601000
                     # [stmt0 verb_completed ''m3'' 7201001]
   \<and> timestamp (stmt0 verb_completed ''m2'' 3601000) - timestamp (stmt0 verb_completed ''m1'' 1000)
       = 3600000
   \<and> hour_apart = [stmt0 verb_completed ''m1'' 1000] @ stmt0 verb_completed ''m2'' 3601000
                     # stmt0 verb_completed ''m3'' 7201001 # []
   \<and> timestamp (stmt0 verb_completed ''m3'' 7201001) - timestamp (stmt0 verb_completed ''m2'' 3601000)
       = 3600001
   \<and> calculateStudySessions hour_apart =
       [\<lparr>sess_start = 1000, sess_end = 3601000, activities = 2, duration = Some 3600\<rparr>,
        \<lparr>sess_start = 7201001, sess_end = 7201001, activities = 1, duration = Some 0\<rparr>]
   \<and> calculateStudySessions hour_apart =
       calculateStudySessions [stmt0 verb_completed ''m1'' 1000, stmt0 verb_completed ''m2'' 3601000]
       @ calculateStudySessions [stmt0 verb_completed ''m3'' 7201001]
   \<and> sum_list (map activities (calculateStudySessions hour_apart)) = length hour_apart
   \<and> (\<exists>s \<in> set (calculateStudySessions hour_apart).
         sess_start s \<le> timestamp (stmt0 verb_completed ''m1'' 1000)
         \<and> timestamp (stmt0 verb_completed ''m2'' 3601000) \<le> sess_end s)"
proof -
  let ?m1 = "stmt0 verb_completed ''m1'' 1000"
  let ?m2 = "stmt0 verb_completed ''m2'' 3601000"
  let ?m3 = "stmt0 verb_completed ''m3'' 7201001"
  have shape: "hour_apart = [?m1] @ ?m2 # ?m3 # []" by (simp add: hour_apart_def)
  have gap1: "timestamp ?m2 - timestamp ?m1 = 3600000" by (simp add: stmt0_def)
  have gap2: "3600000 < timestamp ?m3 - timestamp ?m2" by (simp add: stmt0_def)
  have gap2': "timestamp ?m3 - timestamp ?m2 = 3600001" by (simp add: stmt0_def)
  from calculateStudySessions_boundary [OF hour_apart_sorted, of "[?m1]" ?m2 ?m3 "[]"] shape gap2
  have "calculateStudySessions hour_apart =
          calculateStudySessions ([?m1] @ [?m2]) @ calculateStudySessions [?m3]"
    and "sum_list (map activities (calculateStudySessions hour_apart)) = length hour_apart"
    by blast+
  moreover have shape0: "hour_apart = [] @ ?m1 # ?m2 # [?m3]" by (simp add: hour_apart_def)
  have "timestamp ?m2 - timestamp ?m1 \<le> 3600000" using gap1 by simp
  with calculateStudySessions_boundary [OF hour_apart_sorted, of "[]" ?m1 ?m2 "[?m3]"] shape0
  have "\<exists>s \<in> set (calculateStudySessions hour_apart).
         sess_start s \<le> timestamp ?m1 \<and> timestamp ?m2 \<le> sess_end s"
    by blast
  ultimately show ?thesis
    using hour_apart_sorted shape gap1 gap2' hour_apart_eval by simp
qed

section \<open>Learning streak\<close>

lemma unique_values_set: "set (unique_values xs) = set xs"
  by (simp add: unique_values_def fold_set_add_set)

lemma unique_values_distinct: "distinct (unique_values xs)"
  by (simp add: unique_values_def fold_set_add_distinct)

lemma activity_dates_four:
  assumes "active_days ss = {d, d + 1, d + 2, D}" and "d + 3 < D"
  shows "sort (unique_values (map (\<lambda>stmt. utc_day (timestamp stmt)) ss)) = [d, d + 1, d + 2, D]"
proof (rule sorted_distinct_set_unique)
  show "sorted (sort (unique_values (map (\<lambda>stmt. utc_day (timestamp stmt)) ss)))" by simp
  show "distinct (sort (unique_values (map (\<lambda>stmt. utc_day (timestamp stmt)) ss)))"
    by (simp add: unique_values_distinct)
  show "sorted [d, d + 1, d + 2, D]" using assms(2) by simp
  show "distinct [d, d + 1, d + 2, D]" using assms(2) by simp
  show "set (sort (unique_values (map (\<lambda>stmt. utc_day (timestamp stmt)) ss))) = set [d, d + 1, d + 2, D]"
    using assms(1) by (simp add: unique_values_set active_days_def)
qed

text \<open>
  Claim C2, as amended. For statements with activity on exactly the three consecutive
  days \<open>d\<close>, \<open>d + 1\<close>, \<open>d + 2\<close> and, after a gap, on a final day \<open>D\<close>, the longest streak
  is 3. The current streak is 1 whenever the clock's day is at most one day after \<open>D\<close>, in
  particular on the day after \<open>D\<close>: the test is \<^verbatim>\<open>daysSinceLastActivity <= 1\<close> and the
  last day is counted. It is 0 only from two days after \<open>D\<close> on.
\<close>

theorem calculateLearningStreak_gap:
  assumes "active_days ss = {d, d + 1, d + 2, D}" and "d + 3 < D"
  shows "longest (calculateLearningStreak clock ss) = 3
     \<and> totalDays (calculateLearningStreak clock ss) = 4
     \<and> current (calculateLearningStreak clock ss) = (if utc_day clock - D \<le> 1 then 1 else 0)
     \<and> (utc_day clock = D + 1 \<longrightarrow> current (calculateLearningStreak clock ss) = 1)"
proof -
  have ne: "ss \<noteq> []" using assms(1) by (auto simp: active_days_def)
  have dates: "sort (unique_values (map (\<lambda>stmt. utc_day (timestamp stmt)) ss)) = [d, d + 1, d + 2, D]"
    using assms by (rule activity_dates_four)
  have gap: "D - (d + 2) \<noteq> 1" using assms(2) by simp
  have loop: "streak_loop 0 (Suc 0) [d, d + 1, d + 2, D] = (3, 1)"
    using gap by simp
  have walk: "current_loop 0 (rev [d, d + 1, d + 2, D]) = 0"
    using gap by simp
  show ?thesis
    using ne by (simp add: calculateLearningStreak_def dates loop walk Let_def del: streak_loop.simps current_loop.simps rev.simps)
qed

lemma streak_days_active: "active_days streak_days = {1, 1 + 1, 1 + 2, 10}"
  by (simp add: active_days_def streak_days_def stmt0_def utc_day_def ms_per_day_def insert_commute)

lemma clock_day: "utc_day (11 * ms_per_day + 777) = 10 + 1"
  by (simp add: utc_day_def ms_per_day_def)

text \<open>An instance: days 1, 2, 3 and 10, the clock on day 11.\<close>

theorem calculateLearningStreak_gap_witness:
  "active_days streak_days = {1, 1 + 1, 1 + 2, 10}
   \<and> utc_day (11 * ms_per_day + 777) = 10 + 1
   \<and> longest (calculateLearningStreak (11 * ms_per_day + 777) streak_days) = 3
   \<and> current (calculateLearningStreak (11 * ms_per_day + 777) streak_days) = 1"
  using calculateLearningStreak_gap [OF streak_days_active, of "11 * ms_per_day + 777"] clock_day
    streak_days_active
  by simp

text \<open>
  Claim C2 as stated asks for a current streak of 0 on the day after the last activity;
  the code returns 1 there.
\<close>

theorem current_streak_day_after_counterexample:
  "active_days streak_days = {1, 2, 3, 10}
   \<and> utc_day (11 * ms_per_day + 777) = 11
   \<and> longest (calculateLearningStreak (11 * ms_per_day + 777) streak_days) = 3
   \<and> current (calculateLearningStreak (11 * ms_per_day + 777) streak_days) = 1"
proof -
  have "calculateLearningStreak (11 * ms_per_day + 777) streak_days = \<lparr>current = 1, longest = 3, totalDays = 4\<rparr>"
    by code_simp
  then show ?thesis using streak_days_active clock_day by simp
qed

section \<open>Duration codec\<close>


lemma not_digit_designators [simp]:
  "\<not> is_digit (CHR ''H'')" "\<not> is_digit (CHR ''M'')" "\<not> is_digit (CHR ''S'')"
  by (simp_all add: is_digit_def)


















section \<open>The anomaly detector never reports high risk\<close>

lemma score_anomalies_above_low:
  "above_low (score_anomalies scs) = [] \<or>
   above_low (score_anomalies scs) = [\<lparr>anomaly_kind = Suspicious_scores, anomaly_severity = Medium\<rparr>]"
  by (simp add: score_anomalies_def above_low_def Let_def)

lemma timeline_anomalies_above_low: "above_low (timeline_anomalies tml) = []"
  by (simp add: timeline_anomalies_def above_low_def Let_def split: list.splits)

lemma above_low_append: "above_low (xs @ ys) = above_low xs @ above_low ys"
  by (simp add: above_low_def)

lemma detect_above_low:
  "above_low (anomalies (detectAnomalies data)) = [] \<or>
   above_low (anomalies (detectAnomalies data)) = [\<lparr>anomaly_kind = Suspicious_scores, anomaly_severity = Medium\<rparr>]"
proof (cases "data_scores data")
  case None
  then show ?thesis
    by (cases "data_timeline data")
      (simp_all add: detectAnomalies_def Let_def above_low_append timeline_anomalies_above_low,
       simp_all add: above_low_def)
next
  case (Some summary)
  then show ?thesis
    using score_anomalies_above_low [of "map score (scores summary)"]
    by (cases "data_timeline data")
      (simp_all add: detectAnomalies_def Let_def above_low_append timeline_anomalies_above_low)
qed

lemma severityCount_above_low:
  "sev \<noteq> Low \<Longrightarrow> severityCount sev as = severityCount sev (above_low as)"
  unfolding severityCount_def above_low_def
  by (induction as) auto

lemma risk_from_above_low:
  "above_low as = [] \<or> above_low as = [\<lparr>anomaly_kind = Suspicious_scores, anomaly_severity = Medium\<rparr>]
   \<Longrightarrow> severityCount High as = 0 \<and> severityCount Medium as \<le> 1"
  using severityCount_above_low [of High as] severityCount_above_low [of Medium as]
  by (auto simp: severityCount_def)

text \<open>
  Claim C10. For every input summary, every anomaly that \<^verbatim>\<open>detectAnomalies\<close> emits is of
  severity medium or low; the anomalies above low severity are none at all or the single
  medium one of the suspicious-scores rule. So no anomaly is of high severity, at most one
  is of medium severity, and the risk level is one of none, low and medium: the two
  branches of \<^verbatim>\<open>calculateRiskLevel\<close> that return high are never taken.
\<close>

theorem detectAnomalies_never_high:
  "(above_low (anomalies (detectAnomalies data)) = [] \<or>
    above_low (anomalies (detectAnomalies data)) =
      [\<lparr>anomaly_kind = Suspicious_scores, anomaly_severity = Medium\<rparr>])
   \<and> severityCount High (anomalies (detectAnomalies data)) = 0
   \<and> severityCount Medium (anomalies (detectAnomalies data)) \<le> 1
   \<and> riskLevel (detectAnomalies data) \<in> {Risk_none, Risk_low, Risk_medium}
   \<and> riskLevel (detectAnomalies data) \<noteq> Risk_high"
proof -
  let ?as = "anomalies (detectAnomalies data)"
  have a: "above_low ?as = [] \<or>
    above_low ?as = [\<lparr>anomaly_kind = Suspicious_scores, anomaly_severity = Medium\<rparr>]"
    by (rule detect_above_low)
  from risk_from_above_low [OF a]
  have c: "severityCount High ?as = 0" "severityCount Medium ?as \<le> 1" by simp_all
  have r: "riskLevel (detectAnomalies data) = calculateRiskLevel ?as"
    by (simp add: detectAnomalies_def Let_def)
  have "calculateRiskLevel ?as \<in> {Risk_none, Risk_low, Risk_medium}"
    using c by (simp add: calculateRiskLevel_def)
  then show ?thesis using a c r by auto
qed

text \<open>An instance: a summary that triggers both low-severity rules.\<close>

theorem detectAnomalies_never_high_witness:
  "anomalies (detectAnomalies spread_data) =
     [\<lparr>anomaly_kind = Large_improvement, anomaly_severity = Low\<rparr>,
      \<lparr>anomaly_kind = Activity_spike, anomaly_severity = Low\<rparr>]
   \<and> above_low (anomalies (detectAnomalies spread_data)) = []
   \<and> riskLevel (detectAnomalies spread_data) \<noteq> Risk_high"
proof -
  have "anomalies (detectAnomalies spread_data) =
     [\<lparr>anomaly_kind = Large_improvement, anomaly_severity = Low\<rparr>,
      \<lparr>anomaly_kind = Activity_spike, anomaly_severity = Low\<rparr>]"
    by (simp add: detectAnomalies_def spread_data_def summary_of_def perfect_entry_def
        score_anomalies_def timeline_anomalies_def Let_def)
  then show ?thesis
    using detectAnomalies_never_high [of spread_data] by (simp add: above_low_def)
qed

text \<open>
  Claim C3, as amended. The rule tests \<^verbatim>\<open>scores.length > 5\<close>: for every summary whose score
  list has more than five entries (six or more), all equal to 100, the detector reports the
  medium-severity \<^verbatim>\<open>suspicious_scores\<close> anomaly and the risk level is medium.
\<close>

theorem detectAnomalies_perfect_scores:
  assumes "data_scores data = Some summary"
    and "length (scores summary) > 5"
    and "all_perfect (scores summary)"
  shows "\<lparr>anomaly_kind = Suspicious_scores, anomaly_severity = Medium\<rparr>
           \<in> set (anomalies (detectAnomalies data))
         \<and> riskLevel (detectAnomalies data) = Risk_medium"
proof -
  let ?m = "\<lparr>anomaly_kind = Suspicious_scores, anomaly_severity = Medium\<rparr>"
  let ?as = "anomalies (detectAnomalies data)"
  have all: "list_all (\<lambda>s. s = 100) (map score (scores summary))"
    using assms(3) by (simp add: all_perfect_def list_all_iff)
  have len: "length (map score (scores summary)) > 5" using assms(2) by simp
  have "?m \<in> set (score_anomalies (map score (scores summary)))"
    using all len unfolding score_anomalies_def Let_def by auto
  then have mem: "?m \<in> set ?as"
    using assms(1) by (auto simp: detectAnomalies_def Let_def split: option.splits)
  then have "?as \<noteq> []" by auto
  moreover have "severityCount Medium ?as > 0"
    using mem unfolding severityCount_def by (auto simp: filter_empty_conv intro!: bexI [of _ ?m])
  moreover from risk_from_above_low [OF detect_above_low [of data]]
  have "severityCount High ?as = 0" "severityCount Medium ?as \<le> 1" by simp_all
  ultimately have "calculateRiskLevel ?as = Risk_medium"
    by (simp add: calculateRiskLevel_def)
  then show ?thesis using mem by (simp add: detectAnomalies_def Let_def)
qed

text \<open>An instance: six perfect scores.\<close>

theorem detectAnomalies_perfect_scores_witness:
  "data_scores six_perfect = Some (summary_of six_entries)
   \<and> length (scores (summary_of six_entries)) > 5
   \<and> all_perfect (scores (summary_of six_entries))
   \<and> \<lparr>anomaly_kind = Suspicious_scores, anomaly_severity = Medium\<rparr>
           \<in> set (anomalies (detectAnomalies six_perfect))
   \<and> riskLevel (detectAnomalies six_perfect) = Risk_medium"
proof -
  have h1: "data_scores six_perfect = Some (summary_of six_entries)"
    by (simp add: six_perfect_def)
  have h2: "length (scores (summary_of six_entries)) > 5"
    by (simp add: summary_of_def six_entries_def five_entries_def)
  have h3: "all_perfect (scores (summary_of six_entries))"
    by (simp add: summary_of_def six_entries_def five_entries_def all_perfect_def
        perfect_entry_def)
  from detectAnomalies_perfect_scores [OF h1 h2 h3] h1 h2 h3 show ?thesis by simp
qed

text \<open>
  Claim C3 as stated fails at exactly five perfect scores: no anomaly is reported and the
  risk level is none.
\<close>

theorem five_perfect_scores_counterexample:
  "data_scores five_perfect = Some (summary_of five_entries)
   \<and> length (scores (summary_of five_entries)) \<ge> 5
   \<and> all_perfect (scores (summary_of five_entries))
   \<and> anomalies (detectAnomalies five_perfect) = []
   \<and> riskLevel (detectAnomalies five_perfect) = Risk_none"
  by (simp add: five_perfect_def summary_of_def five_entries_def all_perfect_def
      perfect_entry_def detectAnomalies_def score_anomalies_def timeline_anomalies_def
      calculateRiskLevel_def Let_def)

section \<open>Data quality\<close>



lemma completeness_eq:
  "completeness (assessDataQuality clock ss) =
     (if result_percentage ss < 80 then result_percentage ss else 100)"
  by (cases ss) (simp_all add: assessDataQuality_def result_percentage_def Let_def)











section \<open>Score aggregator\<close>





















lemma score_entries_free: "score_bearing ss = [] \<Longrightarrow> score_entries ss = []"
  by (induction ss)
    (auto simp: score_bearing_def score_entries_def score_free_def split: if_splits)

text \<open>
  Claim C1 fails on the code. The guard of \<^verbatim>\<open>aggregateScores\<close> returns the all-zero
  summary for the empty list only. For every list that is not empty and holds no statement
  with a score, the filtered array is empty and the summary is computed from it: the
  average and the pass rate are \<^verbatim>\<open>NaN\<close> (\<^verbatim>\<open>0 / 0\<close>), the highest score is \<^verbatim>\<open>-Infinity\<close>
  and the lowest is \<^verbatim>\<open>Infinity\<close>.
\<close>

theorem aggregateScores_score_free:
  assumes "ss \<noteq> []" and "score_bearing ss = []"
  shows "aggregateScores ss =
     \<lparr>scores = [], average = NaN, highest = NegInf, lowest = PosInf, totalAttempts = 0,
      passRate = NaN, trend = Stable,
      distribution = Some \<lparr>grade_A = 0, grade_B = 0, grade_C = 0, grade_D = 0,
                            grade_F = 0\<rparr>\<rparr>"
  using assms(1) score_entries_free [OF assms(2)]
  by (simp add: aggregateScores_def Let_def activityGroups_def js_div_def Math_max_def
      Math_min_def calculateScoreTrend_def calculateScoreDistribution_def)

text \<open>An instance: one quiz statement without a result; and the empty list, for which
  the guard returns zeros.\<close>

theorem aggregateScores_score_free_witness:
  "unscored_only \<noteq> [] \<and> score_bearing unscored_only = []
   \<and> average (aggregateScores unscored_only) = NaN
   \<and> highest (aggregateScores unscored_only) = NegInf
   \<and> lowest (aggregateScores unscored_only) = PosInf
   \<and> passRate (aggregateScores unscored_only) = NaN
   \<and> \<not> is_finite (average (aggregateScores unscored_only))
   \<and> aggregateScores [] =
       \<lparr>scores = [], average = Fin 0, highest = Fin 0, lowest = Fin 0, totalAttempts = 0,
        passRate = Fin 0, trend = Stable, distribution = None\<rparr>"
proof -
  have ne: "unscored_only \<noteq> []" by (simp add: unscored_only_def)
  have free: "score_bearing unscored_only = []"
    by (simp add: unscored_only_def score_bearing_def score_free_def result_score_def)
  from aggregateScores_score_free [OF ne free] ne free show ?thesis
    by (simp add: is_finite_def aggregateScores_def)
qed

section \<open>The clock\<close>

lemma streak_same_day:
  "utc_day clock = utc_day clock' \<Longrightarrow>
   calculateLearningStreak clock ss = calculateLearningStreak clock' ss"
  by (simp add: calculateLearningStreak_def)

lemma streak_longest_clock:
  "longest (calculateLearningStreak clock ss) = longest (calculateLearningStreak clock' ss)
   \<and> totalDays (calculateLearningStreak clock ss) = totalDays (calculateLearningStreak clock' ss)"
  by (simp add: calculateLearningStreak_def Let_def split: prod.splits)

text \<open>
  Claim C6, as amended. \<^verbatim>\<open>calculateLearningStreak\<close> and \<^verbatim>\<open>assessDataQuality\<close> take the
  statements only and read the clock themselves; their results are functions of the
  statements and of the instant the clock returns. The streak depends on that instant
  through its UTC calendar day only, and only in the current streak: the longest streak
  and the number of active days do not depend on it. The completeness of the data quality
  does not depend on it.
\<close>

theorem clock_dependence:
  "(utc_day clock = utc_day clock' \<longrightarrow>
      calculateLearningStreak clock ss = calculateLearningStreak clock' ss)
   \<and> longest (calculateLearningStreak clock ss) = longest (calculateLearningStreak clock' ss)
   \<and> totalDays (calculateLearningStreak clock ss)
       = totalDays (calculateLearningStreak clock' ss)
   \<and> completeness (assessDataQuality clock ss) = completeness (assessDataQuality clock' ss)"
  using streak_same_day [of clock clock' ss] streak_longest_clock [of clock ss clock']
  by (simp add: completeness_eq)

text \<open>An instance: two instants of day 11.\<close>

theorem clock_dependence_witness:
  "utc_day (11 * ms_per_day + 777) = utc_day (11 * ms_per_day + 3600000)
   \<and> calculateLearningStreak (11 * ms_per_day + 777) streak_days
       = calculateLearningStreak (11 * ms_per_day + 3600000) streak_days
   \<and> longest (calculateLearningStreak (11 * ms_per_day + 777) streak_days)
       = longest (calculateLearningStreak (12 * ms_per_day) streak_days)"
proof -
  have "utc_day (11 * ms_per_day + 777) = utc_day (11 * ms_per_day + 3600000)"
    by (simp add: utc_day_def ms_per_day_def)
  then show ?thesis
    using clock_dependence [of "11 * ms_per_day + 777" "11 * ms_per_day + 3600000" streak_days]
      clock_dependence [of "11 * ms_per_day + 777" "12 * ms_per_day" streak_days]
    by simp
qed

lemma streak_day_11:
  "calculateLearningStreak (11 * ms_per_day + 777) streak_days =
     \<lparr>current = 1, longest = 3, totalDays = 4\<rparr>"
  by code_simp

lemma streak_day_12:
  "calculateLearningStreak (12 * ms_per_day + 777) streak_days =
     \<lparr>current = 0, longest = 3, totalDays = 4\<rparr>"
  by code_simp

lemma quality_day_2:
  "assessDataQuality (2 * ms_per_day) stale_pair =
     \<lparr>q_score = 50, issues = [''Some activities missing result data''],
      completeness = 0, freshness = 100\<rparr>"
  by code_simp

lemma quality_day_10:
  "assessDataQuality (10 * ms_per_day) stale_pair =
     \<lparr>q_score = 45,
      issues = [''Data is more than a week old'', ''Some activities missing result data''],
      completeness = 0, freshness = 90\<rparr>"
  by code_simp

text \<open>
  Claim C6 as stated fails: on the same statements, the results differ with the instant
  the clock returns inside the call.
\<close>

theorem ambient_clock_counterexample:
  "current (calculateLearningStreak (11 * ms_per_day + 777) streak_days) = 1
   \<and> current (calculateLearningStreak (12 * ms_per_day + 777) streak_days) = 0
   \<and> freshness (assessDataQuality (2 * ms_per_day) stale_pair) = 100
   \<and> freshness (assessDataQuality (10 * ms_per_day) stale_pair) = 90
   \<and> q_score (assessDataQuality (2 * ms_per_day) stale_pair) = 50
   \<and> q_score (assessDataQuality (10 * ms_per_day) stale_pair) = 45"
  by (simp add: streak_day_11 streak_day_12 quality_day_2 quality_day_10)

end
